theory Spec2Isabelle
  imports Complex_Main "HOL-Library.AList"
begin

section \<open>JavaScript numbers\<close>

text \<open>
  A JavaScript number is modelled as an exact rational, or \<open>None\<close> for \<open>NaN\<close> (which is
  also what \<open>undefined\<close> becomes in arithmetic). Rounding error of the IEEE doubles is not
  modelled: decimal literals such as \<open>0.3\<close> are the exact fractions. Every division of
  the modelled code is guarded by a positive divisor, so the infinities do not arise;
  \<open>jdiv\<close> returns \<open>NaN\<close> on a zero divisor.
\<close>

type_synonym jsnum = "rat option"

definition jadd :: "jsnum \<Rightarrow> jsnum \<Rightarrow> jsnum" where
  "jadd a b = (case (a, b) of (Some x, Some y) \<Rightarrow> Some (x + y) | _ \<Rightarrow> None)"

definition jmul :: "jsnum \<Rightarrow> jsnum \<Rightarrow> jsnum" where
  "jmul a b = (case (a, b) of (Some x, Some y) \<Rightarrow> Some (x * y) | _ \<Rightarrow> None)"

definition jdiv :: "jsnum \<Rightarrow> jsnum \<Rightarrow> jsnum" where
  "jdiv a b = (case (a, b) of
      (Some x, Some y) \<Rightarrow> if y = 0 then None else Some (x / y)
    | _ \<Rightarrow> None)"

definition jmin :: "jsnum \<Rightarrow> jsnum \<Rightarrow> jsnum" where
  "jmin a b = (case (a, b) of (Some x, Some y) \<Rightarrow> Some (min x y) | _ \<Rightarrow> None)"

definition jmax :: "jsnum \<Rightarrow> jsnum \<Rightarrow> jsnum" where
  "jmax a b = (case (a, b) of (Some x, Some y) \<Rightarrow> Some (max x y) | _ \<Rightarrow> None)"

text \<open>Comparisons with \<open>NaN\<close> are false.\<close>

definition jlt :: "jsnum \<Rightarrow> jsnum \<Rightarrow> bool" where
  "jlt a b = (case (a, b) of (Some x, Some y) \<Rightarrow> x < y | _ \<Rightarrow> False)"

definition jgt :: "jsnum \<Rightarrow> jsnum \<Rightarrow> bool" where
  "jgt a b = jlt b a"

definition jge :: "jsnum \<Rightarrow> jsnum \<Rightarrow> bool" where
  "jge a b = (case (a, b) of (Some x, Some y) \<Rightarrow> y \<le> x | _ \<Rightarrow> False)"

text \<open>Strict equality \<open>===\<close> of two numbers: \<open>NaN\<close> equals nothing.\<close>

definition jeq :: "jsnum \<Rightarrow> jsnum \<Rightarrow> bool" where
  "jeq a b = (case (a, b) of (Some x, Some y) \<Rightarrow> x = y | _ \<Rightarrow> False)"

text \<open>\<open>Math.round\<close> rounds to the nearest integer, a half towards plus infinity.\<close>

definition mathRound :: "rat \<Rightarrow> int" where
  "mathRound x = \<lfloor>x + 1 / 2\<rfloor>"

definition jround :: "jsnum \<Rightarrow> jsnum" where
  "jround a = map_option (\<lambda>x. of_int (mathRound x)) a"

section \<open>Performance calculator (performanceCalculator.js)\<close>

text \<open>A parameter object: the numeric value of each named field, \<open>None\<close> where the
  field is absent (\<open>undefined\<close>).\<close>

type_synonym bag = "string \<Rightarrow> rat option"

definition calculateCricketScore :: "bag \<Rightarrow> jsnum" where
  "calculateCricketScore params =
    (let runsScored = params ''runsScored'';
         ballsFaced = params ''ballsFaced'';
         wicketsTaken = params ''wicketsTaken'';
         catches = params ''catches'';
         oversBowled = params ''oversBowled'';
         battingScore =
           (if jgt ballsFaced (Some 0)
            then jmin (Some 100) (jmul (jdiv runsScored ballsFaced) (Some 100))
            else if jgt runsScored (Some 0)
            then jmin (Some 100) (jmul runsScored (Some 10))
            else Some 0);
         bowlingScore =
           (if jgt oversBowled (Some 0)
            then jmin (Some 100) (jmul (jdiv wicketsTaken oversBowled) (Some 100))
            else if jgt wicketsTaken (Some 0)
            then jmin (Some 100) (jmul wicketsTaken (Some 25))
            else Some 0);
         fieldingScore = jmin (Some 100) (jmul catches (Some 20));
         totalScore = jadd (jadd (jmul battingScore (Some (5 / 10)))
                                 (jmul bowlingScore (Some (3 / 10))))
                           (jmul fieldingScore (Some (2 / 10)))
     in jround (jmin (Some 100) (jmax (Some 0) totalScore)))"

definition calculateFootballScore :: "bag \<Rightarrow> jsnum" where
  "calculateFootballScore params =
    (let goalsScored = params ''goalsScored'';
         assists = params ''assists'';
         passesCompleted = params ''passesCompleted'';
         tacklesMade = params ''tacklesMade'';
         minutesPlayed = params ''minutesPlayed'';
         safeMinutesPlayed = jmax minutesPlayed (Some 1);
         goalScore = jmul (jmul (jdiv goalsScored safeMinutesPlayed) (Some 90)) (Some 20);
         assistScore = jmul (jmul (jdiv assists safeMinutesPlayed) (Some 90)) (Some 15);
         passAccuracy = jmin (Some 30) (jmul (jdiv passesCompleted safeMinutesPlayed) (Some 30));
         defenseScore =
           jmin (Some 20) (jmul (jmul (jdiv tacklesMade safeMinutesPlayed) (Some 90)) (Some (22 / 100)));
         totalScore = jadd (jadd (jadd goalScore assistScore) passAccuracy) defenseScore
     in jround (jmin (Some 100) (jmax (Some 0) totalScore)))"

definition calculateBasketballScore :: "bag \<Rightarrow> jsnum" where
  "calculateBasketballScore params =
    (let pointsScored = params ''pointsScored'';
         rebounds = params ''rebounds'';
         assists = params ''assists'';
         steals = params ''steals'';
         minutesPlayed = params ''minutesPlayed'';
         safeMinutesPlayed = jmax minutesPlayed (Some 1);
         pointsPerMinute = jmul (jdiv pointsScored safeMinutesPlayed) (Some 48);
         pointScore = jmin (Some 40) (jmul pointsPerMinute (Some (83 / 100)));
         reboundScore =
           jmin (Some 25) (jmul (jmul (jdiv rebounds safeMinutesPlayed) (Some 48)) (Some (25 / 10)));
         assistScore =
           jmin (Some 25) (jmul (jmul (jdiv assists safeMinutesPlayed) (Some 48)) (Some (3125 / 1000)));
         stealScore =
           jmin (Some 10) (jmul (jmul (jdiv steals safeMinutesPlayed) (Some 48)) (Some 5));
         totalScore = jadd (jadd (jadd pointScore reboundScore) assistScore) stealScore
     in jround (jmin (Some 100) (jmax (Some 0) totalScore)))"


text \<open>Errors thrown by the modelled code. The two validation errors of
  \<open>submitMatchData\<close> carry the values of the \<open>errors\<close> object, which the source joins
  with \<open>', '\<close> into the message after the given prefix. \<open>FirestoreNotFound\<close> is the
  store's error for an update of a document that does not exist. \<open>Unreachable\<close> is thrown
  nowhere in the source: it fills the branches of \<open>submitMatchData\<close> that the
  validation before them excludes (lemma \<open>submitMatchData_reachable\<close>).\<close>

datatype errVal =
    Msg string
  | Nested "(string \<times> string) list"
  | Num rat
  | Undefined

datatype error =
    Error string
  | InvalidMatchData "errVal list"
  | InvalidSportParameters "errVal list"
  | TypeError string
  | FirestoreNotFound string
  | Unreachable

text \<open>\<open>String.prototype.toLowerCase\<close>, on the ASCII letters.\<close>

definition lowerChar :: "char \<Rightarrow> char" where
  "lowerChar c =
    (case map_of (zip ''ABCDEFGHIJKLMNOPQRSTUVWXYZ'' ''abcdefghijklmnopqrstuvwxyz'') c of
       None \<Rightarrow> c
     | Some l \<Rightarrow> l)"

definition toLowerCase :: "string \<Rightarrow> string" where
  "toLowerCase s = map lowerChar s"

definition calculatePerformanceScore :: "string option \<Rightarrow> bag option \<Rightarrow> error + jsnum" where
  "calculatePerformanceScore sport parameters =
    (case (sport, parameters) of
       (Some sp, Some ps) \<Rightarrow>
         if sp = [] then Inl (Error ''Sport and parameters are required'')
         else (let l = toLowerCase sp in
           if l = ''cricket'' then Inr (calculateCricketScore ps)
           else if l = ''football'' then Inr (calculateFootballScore ps)
           else if l = ''basketball'' then Inr (calculateBasketballScore ps)
           else Inl (Error (''Unsupported sport: '' @ sp)))
     | _ \<Rightarrow> Inl (Error ''Sport and parameters are required''))"

section \<open>Suggestion engine (suggestionEngine.js)\<close>

text \<open>The records of \<open>models/matchData.js\<close>, without their \<open>createdAt\<close> time stamps.\<close>

datatype suggestionType = Rest | Training | Technique | General

datatype priority = High | Medium | Low

record suggestion =
  stype :: suggestionType
  message :: string
  priority :: priority

definition createSuggestion :: "suggestionType \<Rightarrow> string \<Rightarrow> priority \<Rightarrow> suggestion" where
  "createSuggestion t m p = \<lparr>stype = t, message = m, priority = p\<rparr>"

record restRecommendation =
  hours :: int
  description :: string

definition createRestRecommendation :: "int \<Rightarrow> string \<Rightarrow> restRecommendation" where
  "createRestRecommendation h d = \<lparr>hours = h, description = d\<rparr>"

text \<open>Decimal digits of an integer, as a template literal prints it.\<close>

definition digitChar :: "nat \<Rightarrow> char" where
  "digitChar d = ''0123456789'' ! d"

function showNat :: "nat \<Rightarrow> string" where
  "showNat n = (if n < 10 then [digitChar n] else showNat (n div 10) @ [digitChar (n mod 10)])"
  by pat_completeness auto
termination
  by (relation "measure id") auto

declare showNat.simps [simp del]

definition showInt :: "int \<Rightarrow> string" where
  "showInt i = (if i < 0 then CHR ''-'' # showNat (nat (- i)) else showNat (nat i))"

definition extendedRestDescription :: "int \<Rightarrow> string" where
  "extendedRestDescription h =
     ''Your performance indicates fatigue. Take '' @ showInt h @
     '' hours of complete rest to recover properly. Focus on sleep, hydration, and light stretching.''"

definition moderateRestDescription :: "int \<Rightarrow> string" where
  "moderateRestDescription h =
     ''Good performance but room for improvement. Take '' @ showInt h @
     '' hours of moderate rest. Light activities like walking or yoga are beneficial.''"

definition lightRestDescription :: "int \<Rightarrow> string" where
  "lightRestDescription h =
     ''Excellent performance! Take '' @ showInt h @
     '' hours of light rest. You can engage in light training or active recovery activities.''"

text \<open>\<open>random\<close> is the value \<open>Math.random()\<close> returns, a number in \<open>[0, 1)\<close>.\<close>

definition generateRestRecommendation :: "rat \<Rightarrow> jsnum \<Rightarrow> restRecommendation" where
  "generateRestRecommendation random score =
    (if jlt score (Some 60) then
       (let h = \<lfloor>random * 24\<rfloor> + 48 in createRestRecommendation h (extendedRestDescription h))
     else if jge score (Some 60) \<and> jlt score (Some 80) then
       (let h = \<lfloor>random * 24\<rfloor> + 24 in createRestRecommendation h (moderateRestDescription h))
     else
       (let h = \<lfloor>random * 12\<rfloor> + 12 in createRestRecommendation h (lightRestDescription h)))"

definition generateCricketSuggestions :: "bag \<Rightarrow> jsnum \<Rightarrow> suggestion list" where
  "generateCricketSuggestions parameters score =
    (let runsScored = parameters ''runsScored'';
         ballsFaced = parameters ''ballsFaced'';
         wicketsTaken = parameters ''wicketsTaken'';
         catches = parameters ''catches'';
         oversBowled = parameters ''oversBowled''
     in
       (if jgt ballsFaced (Some 0) then
          (let strikeRate = jmul (jdiv runsScored ballsFaced) (Some 100) in
           if jlt strikeRate (Some 80) then
             [createSuggestion Technique
               ''Work on batting technique and shot selection. Practice in the nets to improve strike rate.''
               High]
           else if jgt strikeRate (Some 150) then
             [createSuggestion Technique
               ''Excellent strike rate! Focus on maintaining consistency and playing according to match situation.''
               Low]
           else [])
        else [])
       @
       (if jgt oversBowled (Some 0) then
          (let wicketsPerOver = jdiv wicketsTaken oversBowled in
           if jlt wicketsPerOver (Some (2 / 10)) then
             [createSuggestion Technique
               ''Focus on bowling accuracy and variation. Practice different deliveries and work on line and length.''
               High]
           else if jgt wicketsPerOver (Some (5 / 10)) then
             [createSuggestion Technique
               ''Great bowling performance! Continue working on consistency and developing new variations.''
               Low]
           else [])
        else [])
       @
       (if jeq catches (Some 0) \<and> jlt score (Some 70) then
          [createSuggestion Technique
            ''Work on fielding skills. Practice catching drills and improve positioning.''
            Medium]
        else if jge catches (Some 2) then
          [createSuggestion Technique
            ''Excellent fielding! Your catching ability is a valuable asset to the team.''
            Low]
        else []))"

definition generateFootballSuggestions :: "bag \<Rightarrow> jsnum \<Rightarrow> suggestion list" where
  "generateFootballSuggestions parameters score =
    (let goalsScored = parameters ''goalsScored'';
         assists = parameters ''assists'';
         passesCompleted = parameters ''passesCompleted'';
         tacklesMade = parameters ''tacklesMade'';
         minutesPlayed = parameters ''minutesPlayed'';
         safeMinutesPlayed = jmax minutesPlayed (Some 1);
         passesPerMinute = jdiv passesCompleted safeMinutesPlayed;
         tacklesPerMinute = jdiv tacklesMade safeMinutesPlayed
     in
       (if jeq goalsScored (Some 0) \<and> jlt score (Some 70) then
          [createSuggestion Technique
            ''Work on finishing skills. Practice shooting from different angles and distances.''
            High]
        else if jge goalsScored (Some 2) then
          [createSuggestion Technique
            ''Great goal-scoring performance! Continue working on movement in the box.''
            Low]
        else [])
       @
       (if jlt passesPerMinute (Some (5 / 10)) then
          [createSuggestion Technique
            ''Improve passing accuracy and frequency. Work on short and long passing drills.''
            Medium]
        else if jgt passesPerMinute (Some 1) then
          [createSuggestion Technique
            ''Excellent passing game! Focus on creating more scoring opportunities.''
            Low]
        else [])
       @
       (if jlt tacklesPerMinute (Some (5 / 100)) \<and> jlt score (Some 70) then
          [createSuggestion Technique
            ''Work on defensive positioning and tackling technique. Practice 1v1 defending.''
            Medium]
        else if jgt tacklesPerMinute (Some (1 / 10)) then
          [createSuggestion Technique
            ''Strong defensive performance! Continue working on reading the game.''
            Low]
        else [])
       @
       (if jeq assists (Some 0) \<and> jeq goalsScored (Some 0) \<and> jlt score (Some 60) then
          [createSuggestion Technique
            ''Focus on creating chances for teammates. Work on vision and through balls.''
            High]
        else []))"

definition generateBasketballSuggestions :: "bag \<Rightarrow> jsnum \<Rightarrow> suggestion list" where
  "generateBasketballSuggestions parameters score =
    (let pointsScored = parameters ''pointsScored'';
         rebounds = parameters ''rebounds'';
         assists = parameters ''assists'';
         steals = parameters ''steals'';
         minutesPlayed = parameters ''minutesPlayed'';
         safeMinutesPlayed = jmax minutesPlayed (Some 1);
         pointsPerMinute = jdiv pointsScored safeMinutesPlayed;
         reboundsPerMinute = jdiv rebounds safeMinutesPlayed;
         assistsPerMinute = jdiv assists safeMinutesPlayed;
         stealsPerMinute = jdiv steals safeMinutesPlayed
     in
       (if jlt pointsPerMinute (Some (5 / 10)) then
          [createSuggestion Technique
            ''Work on shooting technique and shot selection. Practice free throws and mid-range shots.''
            High]
        else if jgt pointsPerMinute (Some 1) then
          [createSuggestion Technique
            ''Excellent scoring efficiency! Focus on creating shots for teammates as well.''
            Low]
        else [])
       @
       (if jlt reboundsPerMinute (Some (2 / 10)) then
          [createSuggestion Technique
            ''Improve rebounding by working on positioning and boxing out. Practice timing jumps.''
            Medium]
        else if jgt reboundsPerMinute (Some (4 / 10)) then
          [createSuggestion Technique
            ''Great rebounding! Your presence in the paint is valuable to the team.''
            Low]
        else [])
       @
       (if jlt assistsPerMinute (Some (1 / 10)) \<and> jlt score (Some 70) then
          [createSuggestion Technique
            ''Work on court vision and passing skills. Practice different types of passes.''
            Medium]
        else if jgt assistsPerMinute (Some (25 / 100)) then
          [createSuggestion Technique
            ''Excellent playmaking! Continue developing leadership on the court.''
            Low]
        else [])
       @
       (if jlt stealsPerMinute (Some (2 / 100)) \<and> jlt score (Some 70) then
          [createSuggestion Technique
            ''Focus on defensive anticipation and active hands. Work on reading passing lanes.''
            Medium]
        else if jgt stealsPerMinute (Some (8 / 100)) then
          [createSuggestion Technique
            ''Great defensive instincts! Balance aggression with smart positioning.''
            Low]
        else []))"

definition generateTrainingSuggestions :: "jsnum \<Rightarrow> string \<Rightarrow> bag \<Rightarrow> suggestion list" where
  "generateTrainingSuggestions score sport parameters =
    [if jge score (Some 90) then
       createSuggestion General
         ''Outstanding performance! Maintain your current training routine and focus on consistency.''
         Low
     else if jge score (Some 80) then
       createSuggestion General
         ''Very good performance! Fine-tune specific skills to reach the next level.''
         Medium
     else if jge score (Some 70) then
       createSuggestion General
         ''Good performance with room for improvement. Focus on consistent practice.''
         Medium
     else if jge score (Some 60) then
       createSuggestion General
         ''Average performance. Identify weak areas and dedicate extra practice time.''
         High
     else
       createSuggestion General
         ''Performance needs improvement. Consider working with a coach on fundamentals.''
         High]
    @
    (let l = toLowerCase sport in
       if l = ''cricket'' then generateCricketSuggestions parameters score
       else if l = ''football'' then generateFootballSuggestions parameters score
       else if l = ''basketball'' then generateBasketballSuggestions parameters score
       else [])"

text \<open>The five trend suggestions.\<close>

definition excellentImprovement :: suggestion where
  "excellentImprovement = createSuggestion General
     ''Excellent improvement trend! Your hard work is paying off. Maintain this momentum.'' Low"

definition goodImprovement :: suggestion where
  "goodImprovement = createSuggestion General
     ''Good improvement trend! Continue your current training approach.'' Low"

definition significantDecline :: suggestion where
  "significantDecline = createSuggestion General
     ''Performance has declined recently. Consider reviewing your training routine and getting adequate rest.''
     High"

definition slightDecline :: suggestion where
  "slightDecline = createSuggestion General
     ''Slight decline in performance. Focus on fundamentals and ensure proper recovery.'' Medium"

definition consistentPerformance :: suggestion where
  "consistentPerformance = createSuggestion General
     ''Consistent performance! Consider adding new challenges to break through plateaus.'' Medium"

text \<open>\<open>xs.reduce((sum, score) => sum + score, 0) / xs.length\<close>.\<close>

definition average :: "rat list \<Rightarrow> rat" where
  "average xs = foldl (\<lambda>sum score. sum + score) 0 xs / of_nat (length xs)"

text \<open>\<open>slice(-3)\<close> keeps the last three elements (all of a shorter list) and
  \<open>slice(-6, -3)\<close> the up to three elements before them. The source's second
  parameter, the sport, is not used.\<close>

definition generateTrendBasedSuggestions :: "rat list \<Rightarrow> suggestion list" where
  "generateTrendBasedSuggestions recentScores =
    (if length recentScores < 2 then []
     else
       (let recent = drop (length recentScores - 3) recentScores;
            older = drop (length recentScores - 6) (take (length recentScores - 3) recentScores)
        in if length older = 0 then []
           else
             (let recentAvg = average recent;
                  olderAvg = average older;
                  difference = recentAvg - olderAvg
              in if difference > 10 then [excellentImprovement]
                 else if difference > 5 then [goodImprovement]
                 else if difference < - 10 then [significantDecline]
                 else if difference < - 5 then [slightDecline]
                 else [consistentPerformance])))"

record suggestionPackage =
  pkg_restRecommendation :: restRecommendation
  pkg_suggestions :: "suggestion list"
  pkg_score :: jsnum
  pkg_sport :: string

definition generateComprehensiveSuggestions ::
  "rat \<Rightarrow> jsnum \<Rightarrow> string \<Rightarrow> bag \<Rightarrow> rat list \<Rightarrow> suggestionPackage" where
  "generateComprehensiveSuggestions random sc sp parameters recentScores =
    (let rest = generateRestRecommendation random sc;
         trainingSuggestions = generateTrainingSuggestions sc sp parameters;
         trendSuggestions = generateTrendBasedSuggestions recentScores
     in \<lparr>pkg_restRecommendation = rest,
         pkg_suggestions = trainingSuggestions @ trendSuggestions,
         pkg_score = sc,
         pkg_sport = sp\<rparr>)"


section \<open>Validators (utils/validators.js)\<close>

text \<open>\<open>String.prototype.trim\<close>, on the ASCII white space.\<close>

definition isWhitespace :: "char \<Rightarrow> bool" where
  "isWhitespace c = ((of_char c :: nat) \<in> {9, 10, 11, 12, 13, 32})"

definition trim :: "string \<Rightarrow> string" where
  "trim s = rev (dropWhile isWhitespace (rev (dropWhile isWhitespace s)))"

text \<open>A string-valued field is \<open>None\<close> when it is \<open>null\<close> or \<open>undefined\<close>.\<close>

definition validateRequired :: "string option \<Rightarrow> bool" where
  "validateRequired v = (case v of None \<Rightarrow> False | Some s \<Rightarrow> trim s \<noteq> [])"

text \<open>\<open>parseFloat\<close> of a number is that number, and \<open>NaN\<close> for \<open>undefined\<close>.\<close>

definition validateNumeric :: "rat option \<Rightarrow> rat \<Rightarrow> rat \<Rightarrow> bool" where
  "validateNumeric v lo hi = (case v of None \<Rightarrow> False | Some num \<Rightarrow> lo \<le> num \<and> num \<le> hi)"

text \<open>A validation result \<open>{isValid, errors}\<close>; the \<open>errors\<close> object lists its keys in
  the order of their insertion.\<close>

record 'e validation =
  isValid :: bool
  errors :: "(string \<times> 'e) list"

text \<open>\<open>if (!ok) errors[key] = msg\<close>, as the entry it adds to the object.\<close>

definition fieldError :: "bool \<Rightarrow> string \<Rightarrow> 'e \<Rightarrow> (string \<times> 'e) list" where
  "fieldError ok key msg = (if \<not> ok then [(key, msg)] else [])"

definition validateCricketParams :: "bag \<Rightarrow> string validation" where
  "validateCricketParams params =
    (let errs =
       fieldError (validateNumeric (params ''runsScored'') 0 500)
         ''runsScored'' ''Runs scored must be between 0 and 500'' @
       fieldError (validateNumeric (params ''ballsFaced'') 0 600)
         ''ballsFaced'' ''Balls faced must be between 0 and 600'' @
       fieldError (validateNumeric (params ''wicketsTaken'') 0 10)
         ''wicketsTaken'' ''Wickets taken must be between 0 and 10'' @
       fieldError (validateNumeric (params ''catches'') 0 20)
         ''catches'' ''Catches must be between 0 and 20'' @
       fieldError (validateNumeric (params ''oversBowled'') 0 50)
         ''oversBowled'' ''Overs bowled must be between 0 and 50''
     in \<lparr>isValid = (length errs = 0), errors = errs\<rparr>)"

definition validateFootballParams :: "bag \<Rightarrow> string validation" where
  "validateFootballParams params =
    (let errs =
       fieldError (validateNumeric (params ''goalsScored'') 0 20)
         ''goalsScored'' ''Goals scored must be between 0 and 20'' @
       fieldError (validateNumeric (params ''assists'') 0 20)
         ''assists'' ''Assists must be between 0 and 20'' @
       fieldError (validateNumeric (params ''passesCompleted'') 0 200)
         ''passesCompleted'' ''Passes completed must be between 0 and 200'' @
       fieldError (validateNumeric (params ''tacklesMade'') 0 50)
         ''tacklesMade'' ''Tackles made must be between 0 and 50'' @
       fieldError (validateNumeric (params ''minutesPlayed'') 0 120)
         ''minutesPlayed'' ''Minutes played must be between 0 and 120''
     in \<lparr>isValid = (length errs = 0), errors = errs\<rparr>)"

definition validateBasketballParams :: "bag \<Rightarrow> string validation" where
  "validateBasketballParams params =
    (let errs =
       fieldError (validateNumeric (params ''pointsScored'') 0 100)
         ''pointsScored'' ''Points scored must be between 0 and 100'' @
       fieldError (validateNumeric (params ''rebounds'') 0 50)
         ''rebounds'' ''Rebounds must be between 0 and 50'' @
       fieldError (validateNumeric (params ''assists'') 0 30)
         ''assists'' ''Assists must be between 0 and 30'' @
       fieldError (validateNumeric (params ''steals'') 0 20)
         ''steals'' ''Steals must be between 0 and 20'' @
       fieldError (validateNumeric (params ''minutesPlayed'') 0 48)
         ''minutesPlayed'' ''Minutes played must be between 0 and 48''
     in \<lparr>isValid = (length errs = 0), errors = errs\<rparr>)"

text \<open>
  \<open>validateSportParameters\<close> looks the sport up in the object literal
  \<open>{cricket: ..., football: ..., basketball: ...}\<close> and answers \<open>Invalid sport type\<close> when
  the lookup is falsy. An object literal inherits the properties of \<open>Object.prototype\<close>,
  so the lookup also finds a truthy value when the sport is one of their names, and the
  source then calls it as a plain function on the parameters object:
  \<^item> \<open>constructor\<close> is \<open>Object\<close>, which returns the parameters object itself;
  \<^item> \<open>toString\<close> returns the string \<open>[object Undefined]\<close>;
  \<^item> \<open>__proto__\<close> is \<open>Object.prototype\<close>, not a function, and the call throws a
    \<open>TypeError\<close>; the remaining methods convert their missing \<open>this\<close> to an object
    and throw a \<open>TypeError\<close> too.
  A sport that is \<open>null\<close> or \<open>undefined\<close> is looked up under the key \<open>null\<close> or
  \<open>undefined\<close>, which names no property.
\<close>

datatype paramValidation =
    Validation "string validation"
  | ParametersItself bag
  | ObjectTag

definition inheritedThrowing :: "string list" where
  "inheritedThrowing =
    [''__proto__'', ''__defineGetter__'', ''__defineSetter__'', ''__lookupGetter__'',
     ''__lookupSetter__'', ''hasOwnProperty'', ''isPrototypeOf'', ''propertyIsEnumerable'',
     ''toLocaleString'', ''valueOf'']"

text \<open>The error of the call, with the message of the V8 engine.\<close>

definition inheritedTypeError :: "string option \<Rightarrow> error" where
  "inheritedTypeError sp =
    (if sp = Some ''__proto__'' then TypeError ''validator is not a function''
     else TypeError ''Cannot convert undefined or null to object'')"

definition validateSportParameters :: "string option \<Rightarrow> bag \<Rightarrow> error + paramValidation" where
  "validateSportParameters sp parameters =
    (if sp = Some ''cricket'' then Inr (Validation (validateCricketParams parameters))
     else if sp = Some ''football'' then Inr (Validation (validateFootballParams parameters))
     else if sp = Some ''basketball'' then Inr (Validation (validateBasketballParams parameters))
     else if sp = Some ''constructor'' then Inr (ParametersItself parameters)
     else if sp = Some ''toString'' then Inr ObjectTag
     else if sp \<in> set (map Some inheritedThrowing) then Inl (inheritedTypeError sp)
     else Inr (Validation \<lparr>isValid = False, errors = [(''sport'', ''Invalid sport type'')]\<rparr>))"

text \<open>The match data handed to \<open>validateMatchData\<close> and \<open>submitMatchData\<close>.
  \<open>parameters\<close> is \<open>None\<close> when it is missing or not an object. The date is \<open>NoDate\<close>
  when the field is falsy, \<open>InvalidDate\<close> when \<open>new Date\<close> cannot read it, and otherwise
  its time in milliseconds.\<close>

datatype dateInput = NoDate | InvalidDate | DateAt int

record matchInput =
  playerId :: "string option"
  coachId :: "string option"
  sport :: "string option"
  parameters :: "bag option"
  date :: dateInput
  calculatedScore :: "rat option"

text \<open>Truthiness of a numeric property: \<open>undefined\<close>, \<open>NaN\<close> and 0 are falsy.\<close>

definition truthy :: "rat option \<Rightarrow> bool" where
  "truthy v = (case v of None \<Rightarrow> False | Some x \<Rightarrow> x \<noteq> 0)"

text \<open>The \<open>parameters\<close> check of \<open>validateMatchData\<close>: the entry it adds to
  \<open>errors\<close>, for each shape of the validator's result.\<close>

definition parametersErrors :: "string option \<Rightarrow> bag option \<Rightarrow> error + (string \<times> errVal) list" where
  "parametersErrors sp ps =
    (case ps of
       None \<Rightarrow> Inr [(''parameters'', Msg ''Parameters are required'')]
     | Some b \<Rightarrow>
        (case validateSportParameters sp b of
           Inl e \<Rightarrow> Inl e
         | Inr (Validation v) \<Rightarrow>
             Inr (if \<not> isValid v then [(''parameters'', Nested (errors v))] else [])
         | Inr (ParametersItself obj) \<Rightarrow>
             Inr (if \<not> truthy (obj ''isValid'')
                  then [(''parameters'', case obj ''errors'' of None \<Rightarrow> Undefined | Some n \<Rightarrow> Num n)]
                  else [])
         | Inr ObjectTag \<Rightarrow> Inr [(''parameters'', Undefined)]))"

definition validateMatchData :: "int \<Rightarrow> matchInput \<Rightarrow> error + errVal validation" where
  "validateMatchData now matchData =
    (let e1 = fieldError (validateRequired (playerId matchData))
                ''playerId'' (Msg ''Player ID is required'');
         e2 = fieldError (validateRequired (coachId matchData))
                ''coachId'' (Msg ''Coach ID is required'');
         e3 = (if \<not> validateRequired (sport matchData) then [(''sport'', Msg ''Sport is required'')]
               else if sport matchData \<notin> {Some ''cricket'', Some ''football'', Some ''basketball''}
               then [(''sport'', Msg ''Invalid sport type'')]
               else [])
     in case parametersErrors (sport matchData) (parameters matchData) of
          Inl e \<Rightarrow> Inl e
        | Inr e4 \<Rightarrow>
           (let e5 = (case date matchData of
                        NoDate \<Rightarrow> [(''date'', Msg ''Match date is required'')]
                      | InvalidDate \<Rightarrow> [(''date'', Msg ''Invalid date format'')]
                      | DateAt t \<Rightarrow>
                          if t > now then [(''date'', Msg ''Match date cannot be in the future'')]
                          else []);
                e6 = (case calculatedScore matchData of
                        None \<Rightarrow> []
                      | Some c \<Rightarrow>
                          fieldError (validateNumeric (Some c) 0 100)
                            ''calculatedScore'' (Msg ''Calculated score must be between 0 and 100''));
                errs = e1 @ e2 @ e3 @ e4 @ e5 @ e6
            in Inr \<lparr>isValid = (length errs = 0), errors = errs\<rparr>))"


section \<open>The document store (firestoreService.js)\<close>

text \<open>
  The three collections the match service uses. A user profile is reduced to its email
  address and a player document to its statistics; a field of a stored document is
  \<open>None\<close> when it is absent or \<open>null\<close>. \<open>matchCount\<close> is a count, a natural number.
  The matches are kept in the order in which a query returns them. \<open>writes\<close> records
  every write issued to the store. The store answers every request; the one failure
  modelled is the update of a document that does not exist.
\<close>

record userProfile =
  email :: "string option"

record playerStats =
  currentScore :: "rat option"
  matchCount :: "nat option"
  totalScore :: "rat option"
  averageScore :: "rat option"
  lastMatchDate :: "int option"

record matchDoc =
  doc_playerId :: string
  doc_playerEmail :: "string option"
  doc_coachId :: string
  doc_sport :: string
  doc_date :: "int option"
  doc_parameters :: bag
  doc_calculatedScore :: "rat option"
  doc_suggestions :: "string list"
  doc_restRecommendation :: "restRecommendation option"

datatype storeOp =
    CreateOp string string
  | UpdateOp string string
  | DeleteOp string string

record store =
  users :: "string \<rightharpoonup> userProfile"
  players :: "string \<rightharpoonup> playerStats"
  matches :: "(string \<times> matchDoc) list"
  writes :: "storeOp list"

text \<open>\<open>firestoreService.create('matches', data)\<close>; \<open>newId\<close> is the id the store assigns.\<close>

definition createMatch :: "store \<Rightarrow> string \<Rightarrow> matchDoc \<Rightarrow> store" where
  "createMatch s newId d =
     s\<lparr>matches := matches s @ [(newId, d)],
       writes := writes s @ [CreateOp ''matches'' newId]\<rparr>"

text \<open>\<open>firestoreService.read('matches', id)\<close>: the document, or \<open>null\<close>.\<close>

definition readMatch :: "store \<Rightarrow> string \<Rightarrow> matchDoc option" where
  "readMatch s matchId = map_of (matches s) matchId"

text \<open>\<open>firestoreService.delete('matches', id)\<close> succeeds whether the document exists or not.\<close>

definition deleteMatchDoc :: "store \<Rightarrow> string \<Rightarrow> store" where
  "deleteMatchDoc s matchId =
     s\<lparr>matches := filter (\<lambda>(i, d). i \<noteq> matchId) (matches s),
       writes := writes s @ [DeleteOp ''matches'' matchId]\<rparr>"

text \<open>\<open>firestoreService.updatePlayerStats\<close> merges the given fields into the player's
  document; the store rejects the update of a document that does not exist.\<close>

definition updatePlayerStats ::
  "store \<Rightarrow> string \<Rightarrow> (playerStats \<Rightarrow> playerStats) \<Rightarrow> error + store" where
  "updatePlayerStats s pid patch =
    (case players s pid of
       None \<Rightarrow> Inl (FirestoreNotFound pid)
     | Some p \<Rightarrow>
         Inr (s\<lparr>players := (players s)(pid \<mapsto> patch p),
                writes := writes s @ [UpdateOp ''players'' pid]\<rparr>))"

section \<open>Match service (matchService.js)\<close>

text \<open>The comparator \<open>bTime - aTime\<close> with \<open>time = date?.toMillis?.() || 0\<close>, in a stable
  sort: newest first.\<close>

definition timeOf :: "string \<times> matchDoc \<Rightarrow> int" where
  "timeOf m = (case doc_date (snd m) of None \<Rightarrow> 0 | Some t \<Rightarrow> t)"

definition sortNewestFirst :: "(string \<times> matchDoc) list \<Rightarrow> (string \<times> matchDoc) list" where
  "sortNewestFirst ms = sort_key (\<lambda>m. - timeOf m) ms"

text \<open>The query by the player's email address, and by the player id when it finds nothing.\<close>

definition queryPlayerMatches :: "store \<Rightarrow> string \<Rightarrow> string \<Rightarrow> (string \<times> matchDoc) list" where
  "queryPlayerMatches s playerEmail pid =
    (let byEmail = filter (\<lambda>m. doc_playerEmail (snd m) = Some playerEmail) (matches s)
     in if length byEmail = 0 then filter (\<lambda>m. doc_playerId (snd m) = pid) (matches s)
        else byEmail)"

definition getPlayerRecentMatches :: "store \<Rightarrow> string \<Rightarrow> nat \<Rightarrow> (string \<times> matchDoc) list" where
  "getPlayerRecentMatches s pid limit =
    (case users s pid of
       None \<Rightarrow> []
     | Some userProfile \<Rightarrow>
        (case email userProfile of
           None \<Rightarrow> []
         | Some playerEmail \<Rightarrow>
             if playerEmail = [] then []
             else take limit (sortNewestFirst (queryPlayerMatches s playerEmail pid))))"

definition getPlayerMatches :: "store \<Rightarrow> string \<Rightarrow> (string \<times> matchDoc) list" where
  "getPlayerMatches s pid =
    (case users s pid of
       None \<Rightarrow> []
     | Some userProfile \<Rightarrow>
        (case email userProfile of
           None \<Rightarrow> []
         | Some playerEmail \<Rightarrow>
             if playerEmail = [] then []
             else sortNewestFirst (queryPlayerMatches s playerEmail pid)))"

text \<open>\<open>Math.round(x * 100) / 100\<close>.\<close>

definition round2 :: "rat \<Rightarrow> rat" where
  "round2 x = of_int (mathRound (x * 100)) / 100"

text \<open>\<open>v || 0\<close> on a stored number.\<close>

definition orZero :: "'a::zero option \<Rightarrow> 'a" where
  "orZero v = (case v of None \<Rightarrow> 0 | Some x \<Rightarrow> x)"

definition updatePlayerStatistics :: "int \<Rightarrow> store \<Rightarrow> string \<Rightarrow> rat \<Rightarrow> error + store" where
  "updatePlayerStatistics now s pid newScore =
    (case players s pid of
       None \<Rightarrow> Inl (Error ''Player not found'')
     | Some player \<Rightarrow>
        (let currentMatchCount = orZero (matchCount player);
             currentTotalScore = orZero (totalScore player);
             newMatchCount = currentMatchCount + 1;
             newTotalScore = currentTotalScore + newScore;
             newAverageScore = newTotalScore / of_nat newMatchCount
         in updatePlayerStats s pid
              (\<lambda>p. p\<lparr>currentScore := Some newScore,
                      matchCount := Some newMatchCount,
                      totalScore := Some newTotalScore,
                      averageScore := Some (round2 newAverageScore),
                      lastMatchDate := Some now\<rparr>)))"

text \<open>The scores that are not \<open>null\<close>, in the order of the matches.\<close>

definition validScoresOf :: "(string \<times> matchDoc) list \<Rightarrow> rat list" where
  "validScoresOf ms = List.map_filter (\<lambda>m. doc_calculatedScore (snd m)) ms"

definition recalculatePlayerStatistics :: "store \<Rightarrow> string \<Rightarrow> error + store" where
  "recalculatePlayerStatistics s pid =
    (case getPlayerMatches s pid of
       [] \<Rightarrow>
         updatePlayerStats s pid
           (\<lambda>p. p\<lparr>currentScore := Some 0, matchCount := Some 0, totalScore := Some 0,
                   averageScore := Some 0, lastMatchDate := None\<rparr>)
     | lastMatch # rest \<Rightarrow>
        (let ms = lastMatch # rest;
             validScores = validScoresOf ms;
             total = foldl (\<lambda>sum sc. sum + sc) 0 validScores;
             avg = (if length validScores > 0 then total / of_nat (length validScores) else 0)
         in updatePlayerStats s pid
              (\<lambda>p. p\<lparr>currentScore := Some (orZero (doc_calculatedScore (snd lastMatch))),
                      matchCount := Some (length ms),
                      totalScore := Some total,
                      averageScore := Some (round2 avg),
                      lastMatchDate := doc_date (snd lastMatch)\<rparr>)))"

definition deleteMatch :: "store \<Rightarrow> string \<Rightarrow> (error + unit) \<times> store" where
  "deleteMatch s matchId =
    (case readMatch s matchId of
       None \<Rightarrow> (Inl (Error ''Match not found''), s)
     | Some match \<Rightarrow>
        (let s1 = deleteMatchDoc s matchId
         in case recalculatePlayerStatistics s1 (doc_playerId match) of
              Inl e \<Rightarrow> (Inl e, s1)
            | Inr s2 \<Rightarrow> (Inr (), s2)))"

text \<open>The second check of \<open>submitMatchData\<close>: \<open>if (!paramValidation.isValid) throw new
  Error(... Object.values(paramValidation.errors) ...)\<close>, on each shape of the result.\<close>

definition paramFailure :: "paramValidation \<Rightarrow> error option" where
  "paramFailure pv =
    (case pv of
       Validation v \<Rightarrow>
         if \<not> isValid v then Some (InvalidSportParameters (map (\<lambda>e. Msg (snd e)) (errors v)))
         else None
     | ParametersItself obj \<Rightarrow>
         if \<not> truthy (obj ''isValid'')
         then (case obj ''errors'' of
                 None \<Rightarrow> Some (TypeError ''Cannot convert undefined or null to object'')
               | Some n \<Rightarrow> Some (InvalidSportParameters []))
         else None
     | ObjectTag \<Rightarrow> Some (TypeError ''Cannot convert undefined or null to object''))"

record submitted =
  sub_id :: string
  sub_match :: matchDoc
  sub_suggestionPackage :: suggestionPackage

text \<open>
  \<open>submitMatchData\<close>. \<open>now\<close> is the time of the call, \<open>random\<close> the draw of
  \<open>Math.random()\<close>, \<open>newId\<close> the id the store assigns to the new match. The result is
  the error thrown or the value returned, together with the store afterwards.
  \<open>createMatchData\<close> keeps the fields it names, so the stored match has no
  \<open>playerEmail\<close>.
\<close>

definition submitMatchData ::
  "int \<Rightarrow> rat \<Rightarrow> string \<Rightarrow> store \<Rightarrow> matchInput \<Rightarrow> (error + submitted) \<times> store" where
  "submitMatchData now random newId s matchData =
    (case validateMatchData now matchData of
       Inl e \<Rightarrow> (Inl e, s)
     | Inr matchValidation \<Rightarrow>
        if \<not> isValid matchValidation
        then (Inl (InvalidMatchData (map snd (errors matchValidation))), s)
        else
         (case (playerId matchData, coachId matchData, sport matchData,
                parameters matchData, date matchData) of
            (Some pid, Some cid, Some sp, Some ps, DateAt t) \<Rightarrow>
              (case validateSportParameters (Some sp) ps of
                 Inl e \<Rightarrow> (Inl e, s)
               | Inr paramValidation \<Rightarrow>
                  (case paramFailure paramValidation of
                     Some e \<Rightarrow> (Inl e, s)
                   | None \<Rightarrow>
                      (case calculatePerformanceScore (Some sp) (Some ps) of
                         Inl e \<Rightarrow> (Inl e, s)
                       | Inr None \<Rightarrow> (Inl Unreachable, s)
                       | Inr (Some sc) \<Rightarrow>
                          (let recentMatches = getPlayerRecentMatches s pid 10;
                               recentScores = validScoresOf recentMatches;
                               suggestionPackage =
                                 generateComprehensiveSuggestions random (Some sc) sp ps recentScores;
                               completeMatchData =
                                 \<lparr>doc_playerId = pid,
                                  doc_playerEmail = None,
                                  doc_coachId = cid,
                                  doc_sport = sp,
                                  doc_date = Some t,
                                  doc_parameters = ps,
                                  doc_calculatedScore = Some sc,
                                  doc_suggestions = map message (pkg_suggestions suggestionPackage),
                                  doc_restRecommendation =
                                    Some (pkg_restRecommendation suggestionPackage)\<rparr>;
                               s1 = createMatch s newId completeMatchData
                           in case updatePlayerStatistics now s1 pid sc of
                                Inl e \<Rightarrow> (Inl e, s1)
                              | Inr s2 \<Rightarrow>
                                  (Inr \<lparr>sub_id = newId, sub_match = completeMatchData,
                                        sub_suggestionPackage = suggestionPackage\<rparr>, s2)))))
          | _ \<Rightarrow> (Inl Unreachable, s)))"

section \<open>Real-time service (realtimeService.js)\<close>

text \<open>
  A subscription is stored under its id as the values of an object of unsubscribe
  functions. \<open>Unsubscribe k\<close> is the function the store returned for its listener \<open>k\<close>;
  calling it releases that listener and does not throw. \<open>released\<close> lists the listeners
  released so far. The \<open>Map\<close> of subscriptions keeps its keys in insertion order.
\<close>

datatype watch = Unsubscribe nat | NotAFunction

record realtime =
  subscriptions :: "(string \<times> watch list) list"
  released :: "nat list"

definition callAll :: "watch list \<Rightarrow> nat list" where
  "callAll subscription = List.map_filter (\<lambda>w. case w of Unsubscribe k \<Rightarrow> Some k | NotAFunction \<Rightarrow> None) subscription"

text \<open>\<open>Map.prototype.set\<close>: a new key is appended, an existing key keeps its place.\<close>

definition mapSet :: "(string \<times> 'v) list \<Rightarrow> string \<Rightarrow> 'v \<Rightarrow> (string \<times> 'v) list" where
  "mapSet m k v = AList.update k v m"

definition subscribeToPlayerUpdates :: "int \<Rightarrow> nat \<Rightarrow> nat \<Rightarrow> realtime \<Rightarrow> string \<Rightarrow> string \<times> realtime" where
  "subscribeToPlayerUpdates now matchesUnsubscribe playerUnsubscribe st pid =
    (let subscriptionId = ''player-'' @ pid @ ''-'' @ showInt now
     in (subscriptionId,
         st\<lparr>subscriptions :=
              mapSet (subscriptions st) subscriptionId
                [Unsubscribe matchesUnsubscribe, Unsubscribe playerUnsubscribe]\<rparr>))"

definition subscribeToCoachUpdates :: "int \<Rightarrow> nat \<Rightarrow> nat \<Rightarrow> realtime \<Rightarrow> string \<Rightarrow> string \<times> realtime" where
  "subscribeToCoachUpdates now playersUnsubscribe matchesUnsubscribe st cid =
    (let subscriptionId = ''coach-'' @ cid @ ''-'' @ showInt now
     in (subscriptionId,
         st\<lparr>subscriptions :=
              mapSet (subscriptions st) subscriptionId
                [Unsubscribe playersUnsubscribe, Unsubscribe matchesUnsubscribe]\<rparr>))"

definition subscribeToMatchUpdates :: "int \<Rightarrow> nat \<Rightarrow> realtime \<Rightarrow> string \<Rightarrow> string \<times> realtime" where
  "subscribeToMatchUpdates now unsub st matchId =
    (let subscriptionId = ''match-'' @ matchId @ ''-'' @ showInt now
     in (subscriptionId,
         st\<lparr>subscriptions := mapSet (subscriptions st) subscriptionId [Unsubscribe unsub]\<rparr>))"

definition unsubscribe :: "realtime \<Rightarrow> string \<Rightarrow> realtime" where
  "unsubscribe st subscriptionId =
    (case map_of (subscriptions st) subscriptionId of
       None \<Rightarrow> st
     | Some subscription \<Rightarrow>
         st\<lparr>released := released st @ callAll subscription,
            subscriptions := filter (\<lambda>(i, sub). i \<noteq> subscriptionId) (subscriptions st)\<rparr>)"

text \<open>\<open>forEach\<close> visits the entries in insertion order and skips an entry deleted before
  it is reached; unsubscribing such an id again changes nothing.\<close>

definition unsubscribeAll :: "realtime \<Rightarrow> realtime" where
  "unsubscribeAll st =
    (fold (\<lambda>(subscriptionId, sub) st'. unsubscribe st' subscriptionId) (subscriptions st) st)
      \<lparr>subscriptions := []\<rparr>"

definition getActiveSubscriptionCount :: "realtime \<Rightarrow> nat" where
  "getActiveSubscriptionCount st = length (subscriptions st)"

definition isSubscriptionActive :: "realtime \<Rightarrow> string \<Rightarrow> bool" where
  "isSubscriptionActive st subscriptionId = (map_of (subscriptions st) subscriptionId \<noteq> None)"

section \<open>Example inputs\<close>

text \<open>The innings of the calculator's own test: 100 runs off 60 balls, nothing else.\<close>

definition centuryInnings :: bag where
  "centuryInnings =
     map_of [(''runsScored'', 100), (''ballsFaced'', 60), (''wicketsTaken'', 0),
             (''catches'', 0), (''oversBowled'', 0)]"

section \<open>The trend suggestion as the specification words it\<close>





section \<open>The invariant of the player statistics\<close>


text \<open>A player with three matches, one of them without a score.\<close>

definition exampleMatch :: "int \<Rightarrow> rat option \<Rightarrow> matchDoc" where
  "exampleMatch t sc =
     \<lparr>doc_playerId = ''player1'', doc_playerEmail = None, doc_coachId = ''coach1'',
      doc_sport = ''cricket'', doc_date = Some t, doc_parameters = centuryInnings,
      doc_calculatedScore = sc, doc_suggestions = [], doc_restRecommendation = None\<rparr>"

definition exampleStore :: store where
  "exampleStore =
     \<lparr>users = [''player1'' \<mapsto> \<lparr>email = Some ''player1@example.com''\<rparr>],
      players = [''player1'' \<mapsto>
        \<lparr>currentScore = Some 70, matchCount = Some 2, totalScore = Some 150,
         averageScore = Some 75, lastMatchDate = Some 3000\<rparr>],
      matches = [(''m1'', exampleMatch 1000 None), (''m2'', exampleMatch 2000 (Some 80)),
                 (''m3'', exampleMatch 3000 (Some 70))],
      writes = []\<rparr>"

text \<open>A match of the future, for no player, in a sport named after an inherited
  property, at a time when \<open>now\<close> is 1000; and the same match in a sport that names no
  property at all.\<close>

definition inheritedSportInput :: matchInput where
  "inheritedSportInput =
     \<lparr>playerId = Some '''', coachId = Some ''coach1'', sport = Some ''__proto__'',
      parameters = Some centuryInnings, date = DateAt 2000, calculatedScore = None\<rparr>"

definition unknownSportInput :: matchInput where
  "unknownSportInput =
     \<lparr>playerId = Some '''', coachId = Some ''coach1'', sport = Some ''invalid_sport'',
      parameters = Some centuryInnings, date = DateAt 2000, calculatedScore = None\<rparr>"

text \<open>A valid match for the player of the example store.\<close>

definition validInput :: matchInput where
  "validInput =
     \<lparr>playerId = Some ''player1'', coachId = Some ''coach1'', sport = Some ''cricket'',
      parameters = Some centuryInnings, date = DateAt 4000, calculatedScore = None\<rparr>"

text \<open>A player whose six matches, in the order of their dates, scored 10, 10, 10 and then
  90, 90, 90.\<close>

definition improvingStore :: store where
  "improvingStore =
     \<lparr>users = [''player1'' \<mapsto> \<lparr>email = Some ''player1@example.com''\<rparr>],
      players = [''player1'' \<mapsto>
        \<lparr>currentScore = Some 90, matchCount = Some 6, totalScore = Some 300,
         averageScore = Some 50, lastMatchDate = Some 6000\<rparr>],
      matches = [(''m1'', exampleMatch 1000 (Some 10)), (''m2'', exampleMatch 2000 (Some 10)),
                 (''m3'', exampleMatch 3000 (Some 10)), (''m4'', exampleMatch 4000 (Some 90)),
                 (''m5'', exampleMatch 5000 (Some 90)), (''m6'', exampleMatch 6000 (Some 90))],
      writes = []\<rparr>"

text \<open>The subscriptions of the integration test: one for a player, one for a coach.\<close>

definition twoSubscriptions :: realtime where
  "twoSubscriptions =
     snd (subscribeToCoachUpdates 1700000000001 3 4
       (snd (subscribeToPlayerUpdates 1700000000000 1 2
          \<lparr>subscriptions = [], released = []\<rparr> ''player-1'')) ''coach-1'')"

section \<open>The string helpers on examples\<close>

lemma showInt_examples:
  "showInt 1700000000000 = ''1700000000000''"
  "showInt 48 = ''48''"
  "showInt (- 45) = ''-45''"
  by (simp_all add: showInt_def showNat.simps digitChar_def)

lemma toLowerCase_example: "toLowerCase ''CriCKet'' = ''cricket''"
  by (simp add: toLowerCase_def lowerChar_def)

lemma trim_example: "trim ''  a b  '' = ''a b''"
  by (simp add: trim_def isWhitespace_def)

section \<open>Score calculator: range of the score\<close>

lemma mathRound_clamp: "0 \<le> mathRound (min 100 (max 0 t)) \<and> mathRound (min 100 (max 0 t)) \<le> 100"
  unfolding mathRound_def by linarith

lemma clamp_round_range:
  assumes "tot \<noteq> None"
  shows "\<exists>n::int. jround (jmin (Some 100) (jmax (Some 0) tot)) = Some (of_int n) \<and> 0 \<le> n \<and> n \<le> 100"
proof -
  from assms obtain t where "tot = Some t" by auto
  then show ?thesis
    using mathRound_clamp [of t] by (auto simp: jround_def jmin_def jmax_def)
qed

lemma jadd_defined: "jadd a b \<noteq> None \<longleftrightarrow> a \<noteq> None \<and> b \<noteq> None"
  by (cases a; cases b) (simp_all add: jadd_def)

lemma jmul_defined: "jmul a b \<noteq> None \<longleftrightarrow> a \<noteq> None \<and> b \<noteq> None"
  by (cases a; cases b) (simp_all add: jmul_def)

lemma jmin_defined: "jmin a b \<noteq> None \<longleftrightarrow> a \<noteq> None \<and> b \<noteq> None"
  by (cases a; cases b) (simp_all add: jmin_def)

lemma jmax_defined: "jmax a b \<noteq> None \<longleftrightarrow> a \<noteq> None \<and> b \<noteq> None"
  by (cases a; cases b) (simp_all add: jmax_def)

lemma jdiv_defined: "jdiv a b \<noteq> None \<longleftrightarrow> a \<noteq> None \<and> b \<noteq> None \<and> b \<noteq> Some 0"
  by (cases a; cases b) (simp_all add: jdiv_def)

lemma jgt_nonzero: "jgt b (Some 0) \<Longrightarrow> b \<noteq> Some 0"
  by (cases b) (simp_all add: jgt_def jlt_def)

lemma safeMinutes_nonzero: "jmax m (Some 1) \<noteq> Some 0"
  by (cases m) (simp_all add: jmax_def max_def)

lemmas defined_simps = jadd_defined jmul_defined jmin_defined jmax_defined jdiv_defined

lemma fieldError_Nil: "fieldError ok k m = [] \<longleftrightarrow> ok"
  by (simp add: fieldError_def)

lemma validateNumeric_Some: "validateNumeric v lo hi \<Longrightarrow> \<exists>x. v = Some x \<and> lo \<le> x \<and> x \<le> hi"
  by (cases v) (auto simp: validateNumeric_def)

lemma validateCricketParams_fields:
  assumes "isValid (validateCricketParams p)"
  shows "p ''runsScored'' \<noteq> None \<and> p ''ballsFaced'' \<noteq> None \<and>
           p ''wicketsTaken'' \<noteq> None \<and> p ''catches'' \<noteq> None \<and> p ''oversBowled'' \<noteq> None"
  using assms
  by (auto simp: validateCricketParams_def Let_def fieldError_Nil dest!: validateNumeric_Some)

lemma validateFootballParams_fields:
  assumes "isValid (validateFootballParams p)"
  shows "p ''goalsScored'' \<noteq> None \<and> p ''assists'' \<noteq> None \<and>
           p ''passesCompleted'' \<noteq> None \<and> p ''tacklesMade'' \<noteq> None \<and> p ''minutesPlayed'' \<noteq> None"
  using assms
  by (auto simp: validateFootballParams_def Let_def fieldError_Nil dest!: validateNumeric_Some)

lemma validateBasketballParams_fields:
  assumes "isValid (validateBasketballParams p)"
  shows "p ''pointsScored'' \<noteq> None \<and> p ''rebounds'' \<noteq> None \<and>
           p ''assists'' \<noteq> None \<and> p ''steals'' \<noteq> None \<and> p ''minutesPlayed'' \<noteq> None"
  using assms
  by (auto simp: validateBasketballParams_def Let_def fieldError_Nil dest!: validateNumeric_Some)

lemma calculateCricketScore_range:
  assumes "isValid (validateCricketParams p)"
  shows "\<exists>n::int. calculateCricketScore p = Some (of_int n) \<and> 0 \<le> n \<and> n \<le> 100"
  unfolding calculateCricketScore_def Let_def
  apply (rule clamp_round_range)
  using validateCricketParams_fields [OF assms]
  by (auto simp: defined_simps simp del: not_None_eq dest: jgt_nonzero)

lemma calculateFootballScore_range:
  assumes "isValid (validateFootballParams p)"
  shows "\<exists>n::int. calculateFootballScore p = Some (of_int n) \<and> 0 \<le> n \<and> n \<le> 100"
  unfolding calculateFootballScore_def Let_def
  apply (rule clamp_round_range)
  using validateFootballParams_fields [OF assms]
  by (simp add: defined_simps safeMinutes_nonzero del: not_None_eq)

lemma calculateBasketballScore_range:
  assumes "isValid (validateBasketballParams p)"
  shows "\<exists>n::int. calculateBasketballScore p = Some (of_int n) \<and> 0 \<le> n \<and> n \<le> 100"
  unfolding calculateBasketballScore_def Let_def
  apply (rule clamp_round_range)
  using validateBasketballParams_fields [OF assms]
  by (simp add: defined_simps safeMinutes_nonzero del: not_None_eq)

lemma toLowerCase_tags:
  "toLowerCase ''cricket'' = ''cricket''"
  "toLowerCase ''football'' = ''football''"
  "toLowerCase ''basketball'' = ''basketball''"
  by (simp_all add: toLowerCase_def lowerChar_def)

lemma calculatePerformanceScore_range:
  assumes "sp \<in> {''cricket'', ''football'', ''basketball''}"
    and "validateSportParameters (Some sp) ps = Inr (Validation v)"
    and "isValid v"
  shows "\<exists>n::int. calculatePerformanceScore (Some sp) (Some ps) = Inr (Some (of_int n)) \<and>
           0 \<le> n \<and> n \<le> 100"
proof -
  consider "sp = ''cricket''" | "sp = ''football''" | "sp = ''basketball''"
    using assms(1) by auto
  then show ?thesis
  proof cases
    case 1
    with assms(2,3) have "isValid (validateCricketParams ps)"
      by (auto simp: validateSportParameters_def)
    from calculateCricketScore_range [OF this] show ?thesis
      using 1 by (simp add: calculatePerformanceScore_def toLowerCase_tags)
  next
    case 2
    with assms(2,3) have "isValid (validateFootballParams ps)"
      by (auto simp: validateSportParameters_def)
    from calculateFootballScore_range [OF this] show ?thesis
      using 2 by (simp add: calculatePerformanceScore_def toLowerCase_tags)
  next
    case 3
    with assms(2,3) have "isValid (validateBasketballParams ps)"
      by (auto simp: validateSportParameters_def)
    from calculateBasketballScore_range [OF this] show ?thesis
      using 3 by (simp add: calculatePerformanceScore_def toLowerCase_tags)
  qed
qed

text \<open>
  Claim C4. For each of the three supported sports and every parameter object that the
  sport's validator accepts (every field a number within its range), the score function
  returns an integer between 0 and 100.
\<close>

theorem score_in_range:
  assumes "sp \<in> {''cricket'', ''football'', ''basketball''}"
    and "validateSportParameters (Some sp) ps = Inr (Validation v)"
    and "isValid v"
  shows "\<exists>n::int. calculatePerformanceScore (Some sp) (Some ps) = Inr (Some (of_int n)) \<and>
           0 \<le> n \<and> n \<le> 100"
  using assms by (rule calculatePerformanceScore_range)

theorem score_in_range_witness:
  "''cricket'' \<in> {''cricket'', ''football'', ''basketball''} \<and>
   validateSportParameters (Some ''cricket'') centuryInnings =
     Inr (Validation (validateCricketParams centuryInnings)) \<and>
   isValid (validateCricketParams centuryInnings) \<and>
   (\<exists>n::int. calculatePerformanceScore (Some ''cricket'') (Some centuryInnings) =
       Inr (Some (of_int n)) \<and> 0 \<le> n \<and> n \<le> 100)"
proof -
  have h1: "''cricket'' \<in> {''cricket'', ''football'', ''basketball''}"
    by simp
  have h2: "validateSportParameters (Some ''cricket'') centuryInnings =
              Inr (Validation (validateCricketParams centuryInnings))"
    by (simp add: validateSportParameters_def)
  have h3: "isValid (validateCricketParams centuryInnings)"
    by (simp add: validateCricketParams_def centuryInnings_def fieldError_def
          validateNumeric_def)
  show ?thesis
    using h1 h2 h3 score_in_range [OF h1 h2 h3] by simp
qed

text \<open>
  Claim C3. The cricket score of 100 runs off 60 balls with no wickets, catches or overs
  is claimed to exceed 80. The batting share is capped at 100 and weighs one half, so
  the code returns 50.
\<close>

theorem cricket_century_score:
  "calculateCricketScore centuryInnings = Some 50 \<and>
   \<not> jgt (calculateCricketScore centuryInnings) (Some 80)"
  by code_simp

section \<open>Rest recommendation\<close>

lemma draw24: "0 \<le> r \<Longrightarrow> r < 1 \<Longrightarrow> 0 \<le> \<lfloor>r * 24\<rfloor> \<and> \<lfloor>r * 24 :: rat\<rfloor> \<le> 23"
  by (simp add: floor_le_iff) 

lemma draw12: "0 \<le> r \<Longrightarrow> r < 1 \<Longrightarrow> 0 \<le> \<lfloor>r * 12\<rfloor> \<and> \<lfloor>r * 12 :: rat\<rfloor> \<le> 11"
  by (simp add: floor_le_iff)

lemma rest_cases:
  "generateRestRecommendation r sc =
    (if jlt sc (Some 60)
     then \<lparr>hours = \<lfloor>r * 24\<rfloor> + 48, description = extendedRestDescription (\<lfloor>r * 24\<rfloor> + 48)\<rparr>
     else if jge sc (Some 60) \<and> jlt sc (Some 80)
     then \<lparr>hours = \<lfloor>r * 24\<rfloor> + 24, description = moderateRestDescription (\<lfloor>r * 24\<rfloor> + 24)\<rparr>
     else \<lparr>hours = \<lfloor>r * 12\<rfloor> + 12, description = lightRestDescription (\<lfloor>r * 12\<rfloor> + 12)\<rparr>)"
  by (simp add: generateRestRecommendation_def createRestRecommendation_def Let_def)

lemma band_excl:
  "jlt sc (Some 60) \<Longrightarrow> \<not> jge sc (Some 60)"
  "jlt sc (Some 60) \<Longrightarrow> \<not> jge sc (Some 80)"
  "jge sc (Some 80) \<Longrightarrow> \<not> jlt sc (Some 80)"
  "jge sc (Some 80) \<Longrightarrow> \<not> jlt sc (Some 60)"
  by (cases sc; simp add: jlt_def jge_def)+

text \<open>
  Claim C5. For every score and every draw \<open>r\<close> of \<open>Math.random()\<close> (a number in
  \<open>[0, 1)\<close>), the hours of the rest recommendation lie in the band of the score, and
  the description is the one of that band: below 60 between 48 and 72 hours with the
  extended-rest text, from 60 to below 80 between 24 and 48 hours with the moderate-rest
  text, from 80 on between 12 and 24 hours with the light-rest text.
\<close>

theorem rest_band:
  assumes "0 \<le> r" and "r < 1"
  shows "(jlt sc (Some 60) \<longrightarrow>
            48 \<le> hours (generateRestRecommendation r sc) \<and>
            hours (generateRestRecommendation r sc) \<le> 72 \<and>
            description (generateRestRecommendation r sc) =
              extendedRestDescription (hours (generateRestRecommendation r sc))) \<and>
         (jge sc (Some 60) \<and> jlt sc (Some 80) \<longrightarrow>
            24 \<le> hours (generateRestRecommendation r sc) \<and>
            hours (generateRestRecommendation r sc) \<le> 48 \<and>
            description (generateRestRecommendation r sc) =
              moderateRestDescription (hours (generateRestRecommendation r sc))) \<and>
         (jge sc (Some 80) \<longrightarrow>
            12 \<le> hours (generateRestRecommendation r sc) \<and>
            hours (generateRestRecommendation r sc) \<le> 24 \<and>
            description (generateRestRecommendation r sc) =
              lightRestDescription (hours (generateRestRecommendation r sc)))"
  using draw24 [OF assms] draw12 [OF assms]
  by (auto simp: rest_cases band_excl)

theorem rest_band_witness:
  "(0::rat) \<le> 1 / 2 \<and> (1 / 2 :: rat) < 1 \<and> jlt (Some 45) (Some 60) \<and>
   48 \<le> hours (generateRestRecommendation (1 / 2) (Some 45)) \<and>
   hours (generateRestRecommendation (1 / 2) (Some 45)) \<le> 72 \<and>
   description (generateRestRecommendation (1 / 2) (Some 45)) =
     extendedRestDescription (hours (generateRestRecommendation (1 / 2) (Some 45)))"
proof -
  have h1: "(0::rat) \<le> 1 / 2" by simp
  have h2: "(1 / 2 :: rat) < 1" by simp
  have h3: "jlt (Some 45) (Some 60)" by (simp add: jlt_def)
  from rest_band [OF h1 h2, of "Some 45"] h3
  have "48 \<le> hours (generateRestRecommendation (1 / 2) (Some 45)) \<and>
        hours (generateRestRecommendation (1 / 2) (Some 45)) \<le> 72 \<and>
        description (generateRestRecommendation (1 / 2) (Some 45)) =
          extendedRestDescription (hours (generateRestRecommendation (1 / 2) (Some 45)))"
    by blast
  with h1 h2 h3 show ?thesis by blast
qed

text \<open>
  Claim C9. For every score and every draw \<open>r\<close> in \<open>[0, 1)\<close>, the hours are an integer
  strictly below the upper end of the band: 48 to 71 below a score of 60, 24 to 47 from
  60 to below 80, and 12 to 23 from 80 on.
\<close>

theorem rest_hours_below_upper_end:
  assumes "0 \<le> r" and "r < 1"
  shows "(jlt sc (Some 60) \<longrightarrow>
            hours (generateRestRecommendation r sc) \<in> {48..71}) \<and>
         (jge sc (Some 60) \<and> jlt sc (Some 80) \<longrightarrow>
            hours (generateRestRecommendation r sc) \<in> {24..47}) \<and>
         (jge sc (Some 80) \<longrightarrow>
            hours (generateRestRecommendation r sc) \<in> {12..23})"
  using draw24 [OF assms] draw12 [OF assms]
  by (auto simp: rest_cases band_excl)


theorem rest_hours_below_upper_end_witness:
  "(0::rat) \<le> 999 / 1000 \<and> (999 / 1000 :: rat) < 1 \<and> jge (Some 85) (Some 80) \<and>
   hours (generateRestRecommendation (999 / 1000) (Some 85)) \<in> {12..23}"
proof -
  have h1: "(0::rat) \<le> 999 / 1000" by simp
  have h2: "(999 / 1000 :: rat) < 1" by simp
  have h3: "jge (Some 85) (Some 80)" by (simp add: jge_def)
  from rest_hours_below_upper_end [OF h1 h2, of "Some 85"] h3
  have "hours (generateRestRecommendation (999 / 1000) (Some 85)) \<in> {12..23}"
    by blast
  with h1 h2 h3 show ?thesis by blast
qed


section \<open>Trend suggestions\<close>











text \<open>
  \<open>submitMatchData\<close> hands the scores of the recent matches over newest first. For the
  player whose scores rose from 10 to 90, the trend suggestion stored with the next match
  is the one for a decline.
\<close>

lemma submit_on_improving_player:
  "validScoresOf (getPlayerRecentMatches improvingStore ''player1'' 10) =
     [90, 90, 90, 10, 10, 10] \<and>
   map_sum id (\<lambda>x. last (doc_suggestions (sub_match x)))
     (fst (submitMatchData 7000 (1 / 2) ''m7'' improvingStore validInput)) =
     Inr (message significantDecline)"
  by code_simp

section \<open>Player statistics\<close>














section \<open>Validation of a match\<close>

lemma validateSportParameters_throws:
  "validateSportParameters sp b = Inl e \<longleftrightarrow>
     sp \<in> set (map Some inheritedThrowing) \<and> e = inheritedTypeError sp"
  by (auto simp: validateSportParameters_def inheritedThrowing_def)

lemma validateMatchData_Inr:
  assumes "parametersErrors (sport m) (parameters m) = Inr e4"
  shows "validateMatchData now m =
    Inr \<lparr>isValid = (length (
           fieldError (validateRequired (playerId m)) ''playerId'' (Msg ''Player ID is required'') @
           fieldError (validateRequired (coachId m)) ''coachId'' (Msg ''Coach ID is required'') @
           (if \<not> validateRequired (sport m) then [(''sport'', Msg ''Sport is required'')]
            else if sport m \<notin> {Some ''cricket'', Some ''football'', Some ''basketball''}
            then [(''sport'', Msg ''Invalid sport type'')] else []) @
           e4 @
           (case date m of
              NoDate \<Rightarrow> [(''date'', Msg ''Match date is required'')]
            | InvalidDate \<Rightarrow> [(''date'', Msg ''Invalid date format'')]
            | DateAt t \<Rightarrow>
                if t > now then [(''date'', Msg ''Match date cannot be in the future'')] else []) @
           (case calculatedScore m of
              None \<Rightarrow> []
            | Some c \<Rightarrow>
                fieldError (validateNumeric (Some c) 0 100)
                  ''calculatedScore'' (Msg ''Calculated score must be between 0 and 100''))) = 0),
         errors =
           fieldError (validateRequired (playerId m)) ''playerId'' (Msg ''Player ID is required'') @
           fieldError (validateRequired (coachId m)) ''coachId'' (Msg ''Coach ID is required'') @
           (if \<not> validateRequired (sport m) then [(''sport'', Msg ''Sport is required'')]
            else if sport m \<notin> {Some ''cricket'', Some ''football'', Some ''basketball''}
            then [(''sport'', Msg ''Invalid sport type'')] else []) @
           e4 @
           (case date m of
              NoDate \<Rightarrow> [(''date'', Msg ''Match date is required'')]
            | InvalidDate \<Rightarrow> [(''date'', Msg ''Invalid date format'')]
            | DateAt t \<Rightarrow>
                if t > now then [(''date'', Msg ''Match date cannot be in the future'')] else []) @
           (case calculatedScore m of
              None \<Rightarrow> []
            | Some c \<Rightarrow>
                fieldError (validateNumeric (Some c) 0 100)
                  ''calculatedScore'' (Msg ''Calculated score must be between 0 and 100''))\<rparr>"
  by (simp only: validateMatchData_def Let_def assms sum.case)

lemma validateMatchData_Inr_parameters:
  assumes "validateMatchData now m = Inr v"
  shows "\<exists>e4. parametersErrors (sport m) (parameters m) = Inr e4"
proof (cases "parametersErrors (sport m) (parameters m)")
  case (Inl e)
  then have "validateMatchData now m = Inl e"
    by (simp only: validateMatchData_def Let_def sum.case)
  with assms show ?thesis by simp
next
  case (Inr e4)
  then show ?thesis by blast
qed

lemma parametersErrors_throws:
  "parametersErrors sp ps = Inl e \<longleftrightarrow>
     ps \<noteq> None \<and> sp \<in> set (map Some inheritedThrowing) \<and> e = inheritedTypeError sp"
proof (cases ps)
  case None
  then show ?thesis by (simp add: parametersErrors_def)
next
  case (Some b)
  show ?thesis
  proof (cases "validateSportParameters sp b")
    case (Inl e')
    with Some have "parametersErrors sp ps = Inl e'"
      by (simp add: parametersErrors_def)
    with Inl Some show ?thesis
      using validateSportParameters_throws [of sp b e'] by auto
  next
    case (Inr pv)
    with Some have "\<exists>es. parametersErrors sp ps = Inr es"
      by (cases pv) (simp_all add: parametersErrors_def)
    moreover from Inr have "sp \<notin> set (map Some inheritedThrowing)"
      using validateSportParameters_throws [of sp b] by auto
    ultimately show ?thesis by auto
  qed
qed

lemma validateMatchData_throws:
  "validateMatchData now m = Inl e \<longleftrightarrow>
     parameters m \<noteq> None \<and> sport m \<in> set (map Some inheritedThrowing) \<and>
     e = inheritedTypeError (sport m)"
proof (cases "parametersErrors (sport m) (parameters m)")
  case (Inl e')
  then have "validateMatchData now m = Inl e'"
    by (simp only: validateMatchData_def Let_def sum.case)
  with Inl show ?thesis
    using parametersErrors_throws [of "sport m" "parameters m"] by auto
next
  case (Inr e4)
  from validateMatchData_Inr [OF this, of now] Inr show ?thesis
    using parametersErrors_throws [of "sport m" "parameters m" e] by simp
qed

lemma validateMatchData_reports_all:
  assumes "\<not> validateRequired (playerId m)"
    and "sport m \<notin> {Some ''cricket'', Some ''football'', Some ''basketball''}"
    and "date m = DateAt t" and "now < t"
    and "validateMatchData now m = Inr v"
  shows "\<not> isValid v \<and>
         (''playerId'', Msg ''Player ID is required'') \<in> set (errors v) \<and>
         ((''sport'', Msg ''Sport is required'') \<in> set (errors v) \<or>
          (''sport'', Msg ''Invalid sport type'') \<in> set (errors v)) \<and>
         (''date'', Msg ''Match date cannot be in the future'') \<in> set (errors v)"
proof -
  from validateMatchData_Inr_parameters [OF assms(5)] obtain e4
    where "parametersErrors (sport m) (parameters m) = Inr e4" by blast
  from validateMatchData_Inr [OF this, of now] assms(5)
  have "v = \<lparr>isValid = False, errors =
           (''playerId'', Msg ''Player ID is required'') #
           fieldError (validateRequired (coachId m)) ''coachId'' (Msg ''Coach ID is required'') @
           (if \<not> validateRequired (sport m) then [(''sport'', Msg ''Sport is required'')]
            else [(''sport'', Msg ''Invalid sport type'')]) @
           e4 @
           [(''date'', Msg ''Match date cannot be in the future'')] @
           (case calculatedScore m of
              None \<Rightarrow> []
            | Some c \<Rightarrow>
                fieldError (validateNumeric (Some c) 0 100)
                  ''calculatedScore'' (Msg ''Calculated score must be between 0 and 100''))\<rparr>"
    using assms(1-4) by (simp add: fieldError_def)
  then show ?thesis
    by (cases "validateRequired (sport m)") simp_all
qed

text \<open>
  Claim C6. A match dated in the future, in a sport outside the three supported ones and
  with an empty player id is claimed to be rejected with all three violations reported.
  For the sport \<open>__proto__\<close> and a parameters object, \<open>validateMatchData\<close> throws a
  \<open>TypeError\<close> instead and reports no violation, and so does \<open>submitMatchData\<close>.
  Lemma \<open>validateMatchData_reports_all\<close> has the three violations wherever
  \<open>validateMatchData\<close> returns.
\<close>

theorem inherited_sport_throws:
  "validateMatchData 1000 inheritedSportInput =
     Inl (TypeError ''validator is not a function'') \<and>
   submitMatchData 1000 (1 / 2) ''m4'' exampleStore inheritedSportInput =
     (Inl (TypeError ''validator is not a function''), exampleStore)"
proof -
  have "validateMatchData 1000 inheritedSportInput =
     Inl (TypeError ''validator is not a function'')"
    by code_simp
  then show ?thesis
    by (simp add: submitMatchData_def)
qed

section \<open>Submitting and deleting a match\<close>

lemma submit_invalid:
  assumes "validateMatchData now m = Inr v" and "\<not> isValid v"
  shows "submitMatchData now r newId s m = (Inl (InvalidMatchData (map snd (errors v))), s)"
  using assms by (simp add: submitMatchData_def)

lemma submit_throw:
  assumes "validateMatchData now m = Inl e"
  shows "submitMatchData now r newId s m = (Inl e, s)"
  using assms by (simp add: submitMatchData_def)

lemma paramFailure_parametersErrors:
  assumes "validateSportParameters sp b = Inr pv" and "paramFailure pv \<noteq> None"
  shows "\<exists>e. parametersErrors sp (Some b) = Inr [(''parameters'', e)]"
  using assms
  by (cases pv) (auto simp: parametersErrors_def paramFailure_def split: if_splits)

lemma parametersErrors_invalid:
  assumes "parametersErrors (sport m) (parameters m) = Inr (x # xs)"
  shows "\<exists>v. validateMatchData now m = Inr v \<and> \<not> isValid v"
  using assms by (simp add: validateMatchData_def Let_def)

text \<open>
  Claim C7. When \<open>validateMatchData\<close> rejects the match, \<open>submitMatchData\<close> throws the
  validation error that lists the values of its \<open>errors\<close> object and leaves the store
  as it was: no match is created, no statistics change, no write is issued. A match whose
  parameters the sport's validator rejects is among those: \<open>validateMatchData\<close> runs
  the same validator and reports its errors under \<open>parameters\<close>. Where the validation
  itself throws, \<open>submitMatchData\<close> throws that error and the store is as it was, too.
\<close>

theorem submit_fails_fast:
  "(validateMatchData now m = Inr v \<and> \<not> isValid v \<longrightarrow>
      submitMatchData now r newId s m = (Inl (InvalidMatchData (map snd (errors v))), s)) \<and>
   (parameters m = Some b \<and> validateSportParameters (sport m) b = Inr pv \<and>
    paramFailure pv \<noteq> None \<longrightarrow>
      (\<exists>vals. submitMatchData now r newId s m = (Inl (InvalidMatchData vals), s))) \<and>
   (validateMatchData now m = Inl e \<longrightarrow> submitMatchData now r newId s m = (Inl e, s))"
proof (intro conjI impI)
  assume "validateMatchData now m = Inl e"
  then show "submitMatchData now r newId s m = (Inl e, s)"
    by (rule submit_throw)
next
  assume "validateMatchData now m = Inr v \<and> \<not> isValid v"
  then show "submitMatchData now r newId s m = (Inl (InvalidMatchData (map snd (errors v))), s)"
    by (simp add: submit_invalid)
next
  assume a: "parameters m = Some b \<and> validateSportParameters (sport m) b = Inr pv \<and>
    paramFailure pv \<noteq> None"
  then obtain e where "parametersErrors (sport m) (parameters m) = Inr [(''parameters'', e)]"
    using paramFailure_parametersErrors [of "sport m" b pv] by auto
  then obtain v' where "validateMatchData now m = Inr v'" and "\<not> isValid v'"
    using parametersErrors_invalid by blast
  then show "\<exists>vals. submitMatchData now r newId s m = (Inl (InvalidMatchData vals), s)"
    using submit_invalid by blast
qed

theorem submit_fails_fast_witness:
  "validateMatchData 1000 unknownSportInput =
     Inr \<lparr>isValid = False,
          errors = [(''playerId'', Msg ''Player ID is required''),
                    (''sport'', Msg ''Invalid sport type''),
                    (''parameters'', Nested [(''sport'', ''Invalid sport type'')]),
                    (''date'', Msg ''Match date cannot be in the future'')]\<rparr> \<and>
   submitMatchData 1000 (1 / 2) ''m4'' exampleStore unknownSportInput =
     (Inl (InvalidMatchData
        [Msg ''Player ID is required'', Msg ''Invalid sport type'',
         Nested [(''sport'', ''Invalid sport type'')],
         Msg ''Match date cannot be in the future'']), exampleStore) \<and>
   parameters unknownSportInput = Some centuryInnings \<and>
   validateSportParameters (sport unknownSportInput) centuryInnings =
     Inr (Validation \<lparr>isValid = False, errors = [(''sport'', ''Invalid sport type'')]\<rparr>) \<and>
   (\<exists>vals. submitMatchData 1000 (1 / 2) ''m4'' exampleStore unknownSportInput =
      (Inl (InvalidMatchData vals), exampleStore)) \<and>
   validateMatchData 1000 inheritedSportInput = Inl (TypeError ''validator is not a function'') \<and>
   submitMatchData 1000 (1 / 2) ''m4'' exampleStore inheritedSportInput =
     (Inl (TypeError ''validator is not a function''), exampleStore)"
proof -
  let ?v = "\<lparr>isValid = False,
          errors = [(''playerId'', Msg ''Player ID is required''),
                    (''sport'', Msg ''Invalid sport type''),
                    (''parameters'', Nested [(''sport'', ''Invalid sport type'')]),
                    (''date'', Msg ''Match date cannot be in the future'')]\<rparr>"
  let ?pv = "Validation \<lparr>isValid = False, errors = [(''sport'', ''Invalid sport type'')]\<rparr>"
  have h1: "validateMatchData 1000 unknownSportInput = Inr ?v"
    by code_simp
  have h2: "\<not> isValid ?v"
    by simp
  have h3: "parameters unknownSportInput = Some centuryInnings"
    by (simp add: unknownSportInput_def)
  have h4: "validateSportParameters (sport unknownSportInput) centuryInnings = Inr ?pv"
    by (simp add: unknownSportInput_def validateSportParameters_def inheritedThrowing_def)
  have h5: "paramFailure ?pv \<noteq> None"
    by (simp add: paramFailure_def)
  from submit_fails_fast [of 1000 unknownSportInput ?v "1 / 2" "''m4''" exampleStore] h1 h2
  have c1: "submitMatchData 1000 (1 / 2) ''m4'' exampleStore unknownSportInput =
      (Inl (InvalidMatchData (map snd (errors ?v))), exampleStore)"
    by blast
  from submit_fails_fast [of 1000 unknownSportInput _ "1 / 2" "''m4''" exampleStore
      centuryInnings ?pv] h3 h4 h5
  have c2: "\<exists>vals. submitMatchData 1000 (1 / 2) ''m4'' exampleStore unknownSportInput =
      (Inl (InvalidMatchData vals), exampleStore)"
    by blast
  have h6: "validateMatchData 1000 inheritedSportInput =
      Inl (TypeError ''validator is not a function'')"
    by code_simp
  from submit_fails_fast [of 1000 inheritedSportInput _ "1 / 2" "''m4''" exampleStore _ _
      "TypeError ''validator is not a function''"] h6
  have c3: "submitMatchData 1000 (1 / 2) ''m4'' exampleStore inheritedSportInput =
     (Inl (TypeError ''validator is not a function''), exampleStore)"
    by blast
  from h1 h3 h4 h6 c1 c2 c3 show ?thesis
    by simp
qed

text \<open>
  Claim C10. \<open>deleteMatch\<close> of an id under which the store has no match throws
  \<open>Match not found\<close> and leaves the store as it was: no deletion is issued and no
  statistics change.
\<close>

theorem delete_missing_match:
  assumes "readMatch s matchId = None"
  shows "deleteMatch s matchId = (Inl (Error ''Match not found''), s)"
  using assms by (simp add: deleteMatch_def)

theorem delete_missing_match_witness:
  "readMatch exampleStore ''m9'' = None \<and>
   deleteMatch exampleStore ''m9'' = (Inl (Error ''Match not found''), exampleStore)"
proof -
  have h: "readMatch exampleStore ''m9'' = None"
    by (simp add: readMatch_def exampleStore_def)
  from delete_missing_match [OF h] h show ?thesis
    by simp
qed

section \<open>Subscriptions\<close>










text \<open>The life cycle of the integration test: two subscriptions, of which the first is
  unsubscribed and then all are.\<close>

lemma subscription_lifecycle:
  "map fst (subscriptions twoSubscriptions) =
     [''player-player-1-1700000000000'', ''coach-coach-1-1700000000001''] \<and>
   getActiveSubscriptionCount twoSubscriptions = 2 \<and>
   isSubscriptionActive twoSubscriptions ''player-player-1-1700000000000'' \<and>
   getActiveSubscriptionCount (unsubscribe twoSubscriptions ''player-player-1-1700000000000'') = 1 \<and>
   released (unsubscribe twoSubscriptions ''player-player-1-1700000000000'') = [1, 2] \<and>
   getActiveSubscriptionCount
     (unsubscribeAll (unsubscribe twoSubscriptions ''player-player-1-1700000000000'')) = 0 \<and>
   released (unsubscribeAll (unsubscribe twoSubscriptions ''player-player-1-1700000000000'')) =
     [1, 2, 3, 4]"
  by (simp add: twoSubscriptions_def subscribeToPlayerUpdates_def subscribeToCoachUpdates_def
      showInt_def showNat.simps digitChar_def Let_def mapSet_def getActiveSubscriptionCount_def
      isSubscriptionActive_def unsubscribe_def unsubscribeAll_def callAll_def
      List.map_filter_simps)

lemma unsubscribe_releases:
  assumes "map_of (subscriptions st) sid = Some subscription"
  shows "released (unsubscribe st sid) = released st @ callAll subscription"
  using assms by (simp add: unsubscribe_def)

lemma unsubscribe_keeps_others:
  assumes "k \<noteq> sid"
  shows "isSubscriptionActive (unsubscribe st sid) k = isSubscriptionActive st k"
proof -
  have "map_of (filter (\<lambda>(i, sub). i \<noteq> sid) xs) k = map_of xs k" for xs :: "(string \<times> watch list) list"
    using assms by (induction xs) auto
  then show ?thesis
    by (simp add: isSubscriptionActive_def unsubscribe_def split: option.splits)
qed

lemma filter_key_fresh:
  "k \<notin> fst ` set xs \<Longrightarrow> filter (\<lambda>(i, sub). i \<noteq> k) xs = xs"
  by (induction xs) auto

lemma fold_unsubscribe:
  assumes "distinct (map fst xs)" and "subscriptions st = xs"
  shows "fold (\<lambda>(sid, sub) st'. unsubscribe st' sid) xs st =
           st\<lparr>released := released st @ concat (map (\<lambda>e. callAll (snd e)) xs),
              subscriptions := []\<rparr>"
  using assms
proof (induction xs arbitrary: st)
  case Nil
  then show ?case by simp
next
  case (Cons e xs)
  obtain k v where e: "e = (k, v)" by (cases e)
  with Cons.prems have fresh: "k \<notin> fst ` set xs" and d: "distinct (map fst xs)"
    by auto
  have step: "unsubscribe st k = st\<lparr>released := released st @ callAll v, subscriptions := xs\<rparr>"
    using Cons.prems(2) e fresh by (simp add: unsubscribe_def filter_key_fresh)
  have "subscriptions (unsubscribe st k) = xs"
    by (simp add: step)
  from Cons.IH [OF d this] show ?case
    by (simp add: e step)
qed

lemma unsubscribeAll_releases_all:
  assumes "distinct (map fst (subscriptions st))"
  shows "released (unsubscribeAll st) =
           released st @ concat (map (\<lambda>e. callAll (snd e)) (subscriptions st))"
  by (simp add: unsubscribeAll_def fold_unsubscribe [OF assms refl])

section \<open>The valid path of a submission\<close>

lemma validateRequired_Some: "validateRequired v \<Longrightarrow> \<exists>x. v = Some x"
  by (cases v) (simp_all add: validateRequired_def)

lemma parametersErrors_Nil:
  assumes "parametersErrors (Some sp) ps = Inr []"
    and "sp \<in> {''cricket'', ''football'', ''basketball''}"
  shows "\<exists>b pv. ps = Some b \<and> validateSportParameters (Some sp) b = Inr (Validation pv) \<and> isValid pv"
proof (cases ps)
  case None
  with assms(1) show ?thesis by (simp add: parametersErrors_def)
next
  case (Some b)
  from assms(2) obtain pv where pv: "validateSportParameters (Some sp) b = Inr (Validation pv)"
    by (auto simp: validateSportParameters_def)
  with Some assms(1) have "isValid pv"
    by (simp add: parametersErrors_def split: if_splits)
  with Some pv show ?thesis by blast
qed

lemma validateMatchData_valid_fields:
  assumes "validateMatchData now m = Inr v" and "isValid v"
  shows "\<exists>pid cid sp ps t pv. playerId m = Some pid \<and> coachId m = Some cid \<and>
           sport m = Some sp \<and> sp \<in> {''cricket'', ''football'', ''basketball''} \<and>
           parameters m = Some ps \<and> date m = DateAt t \<and>
           validateSportParameters (Some sp) ps = Inr (Validation pv) \<and> isValid pv"
proof -
  from validateMatchData_Inr_parameters [OF assms(1)] obtain e4
    where e4: "parametersErrors (sport m) (parameters m) = Inr e4" by blast
  from validateMatchData_Inr [OF e4, of now] assms
  have parts: "fieldError (validateRequired (playerId m)) ''playerId'' (Msg ''Player ID is required'') = []"
    "fieldError (validateRequired (coachId m)) ''coachId'' (Msg ''Coach ID is required'') = []"
    "(if \<not> validateRequired (sport m) then [(''sport'', Msg ''Sport is required'')]
            else if sport m \<notin> {Some ''cricket'', Some ''football'', Some ''basketball''}
            then [(''sport'', Msg ''Invalid sport type'')] else []) = []"
    "e4 = []"
    "(case date m of
              NoDate \<Rightarrow> [(''date'', Msg ''Match date is required'')]
            | InvalidDate \<Rightarrow> [(''date'', Msg ''Invalid date format'')]
            | DateAt t \<Rightarrow>
                if t > now then [(''date'', Msg ''Match date cannot be in the future'')] else []) = []"
    by auto
  from parts(1) obtain pid where pid: "playerId m = Some pid"
    by (auto simp: fieldError_Nil dest: validateRequired_Some)
  from parts(2) obtain cid where cid: "coachId m = Some cid"
    by (auto simp: fieldError_Nil dest: validateRequired_Some)
  from parts(3) obtain sp where sp: "sport m = Some sp"
    and tag: "sp \<in> {''cricket'', ''football'', ''basketball''}"
    by (auto split: if_splits)
  from parts(5) obtain t where t: "date m = DateAt t"
    by (cases "date m") auto
  from e4 parts(4) sp have "parametersErrors (Some sp) (parameters m) = Inr []"
    by simp
  from parametersErrors_Nil [OF this tag] obtain b pv where "parameters m = Some b"
    and "validateSportParameters (Some sp) b = Inr (Validation pv)" and "isValid pv"
    by blast
  with pid cid sp tag t show ?thesis by blast
qed

lemma updatePlayerStatistics_error:
  assumes "updatePlayerStatistics now s pid sc = Inl e"
  shows "e = Error ''Player not found''"
  using assms
  by (auto simp: updatePlayerStatistics_def updatePlayerStats_def Let_def split: option.splits)

text \<open>The branches of \<open>submitMatchData\<close> marked \<open>Unreachable\<close> are never taken: a match
  that passes \<open>validateMatchData\<close> has all its fields, and its score is a number.\<close>

lemma submitMatchData_reachable:
  "fst (submitMatchData now r newId s m) \<noteq> Inl Unreachable"
proof (cases "validateMatchData now m")
  case (Inl e)
  then show ?thesis
    using validateMatchData_throws [of now m e]
    by (auto simp: submit_throw inheritedTypeError_def)
next
  case (Inr v)
  show ?thesis
  proof (cases "isValid v")
    case False
    with Inr show ?thesis by (simp add: submit_invalid)
  next
    case True
    from validateMatchData_valid_fields [OF Inr True] obtain pid cid sp ps t pv
      where f: "playerId m = Some pid" "coachId m = Some cid" "sport m = Some sp"
        "parameters m = Some ps" "date m = DateAt t"
        and tag: "sp \<in> {''cricket'', ''football'', ''basketball''}"
        and pv: "validateSportParameters (Some sp) ps = Inr (Validation pv)" "isValid pv"
      by blast
    from calculatePerformanceScore_range [OF tag pv] obtain n :: int
      where sc: "calculatePerformanceScore (Some sp) (Some ps) = Inr (Some (of_int n))"
      by blast
    have pf: "paramFailure (Validation pv) = None"
      using pv(2) by (simp add: paramFailure_def)
    show ?thesis
      using Inr True f pv(1) pf sc
      by (auto simp: submitMatchData_def Let_def split: sum.splits
          dest: updatePlayerStatistics_error)
  qed
qed

text \<open>A valid match of the example player is stored and counted: one create and one
  update are issued, and the statistics go from two matches with total 150 to three
  with total 200.\<close>

lemma submit_example:
  "map_sum id sub_id (fst (submitMatchData 5000 (1 / 2) ''m4'' exampleStore validInput)) =
     Inr ''m4'' \<and>
   map fst (matches (snd (submitMatchData 5000 (1 / 2) ''m4'' exampleStore validInput))) =
     [''m1'', ''m2'', ''m3'', ''m4''] \<and>
   writes (snd (submitMatchData 5000 (1 / 2) ''m4'' exampleStore validInput)) =
     [CreateOp ''matches'' ''m4'', UpdateOp ''players'' ''player1''] \<and>
   players (snd (submitMatchData 5000 (1 / 2) ''m4'' exampleStore validInput)) ''player1'' =
     Some \<lparr>currentScore = Some 50, matchCount = Some 3, totalScore = Some 200,
           averageScore = Some (6667 / 100), lastMatchDate = Some 5000\<rparr>"
  by code_simp


end
